theory Spec2Isabelle
  imports Main
begin

section \<open>The wallet context of \<^verbatim>\<open>src/context/WalletConnect.tsx\<close>\<close>

text \<open>
  The file is one React context component: four pieces of hook state, the callbacks
  \<^verbatim>\<open>subscriberError\<close>, \<^verbatim>\<open>connect\<close>, \<^verbatim>\<open>disconnect\<close> and \<^verbatim>\<open>mint\<close>, and calls into
  collaborators that live outside the repository (the wallet service, the contract
  service, \<^verbatim>\<open>notify\<close>, \<^verbatim>\<open>localStorage\<close>, the console).

  The embedding threads the hook state and the stored provider type through every
  callback, and collects each call into a collaborator, in program order, in a list of
  events. An awaited call is answered by an environment: either a value or a rejection.
  An \<^verbatim>\<open>async\<close> callback returns, besides state and events, whether its promise resolved
  or rejected. Synchronous collaborator calls (\<^verbatim>\<open>notify\<close>, \<^verbatim>\<open>getContract\<close>,
  \<^verbatim>\<open>resetConnect\<close>, \<^verbatim>\<open>localStorage\<close>, the state setters) are taken to return normally.
\<close>

subsection \<open>Values at the boundary\<close>

text \<open>A thrown value, or the reason of a rejected promise.\<close>

datatype js_error = JsError string

text \<open>The outcome of an awaited call: \<open>Inl\<close> is a rejection, \<open>Inr\<close> the value.\<close>

type_synonym 'a awaited = "js_error + 'a"

text \<open>How the promise of an \<^verbatim>\<open>async\<close> callback settles.\<close>

datatype completion = Resolved | Rejected js_error

text \<open>
  JavaScript numbers are IEEE doubles. Their arithmetic is not reproduced here: the
  operations the component applies to numbers are parameters of the model, so every
  theorem holds for each interpretation of them, the IEEE one included. The type \<open>'n\<close>
  stands for a number (or a value that the operators coerce to one, such as the decimal
  strings web3 returns for \<^verbatim>\<open>uint256\<close>).

  \<^item> \<open>num_zero\<close> is the literal \<^verbatim>\<open>0\<close>;
  \<^item> \<open>num_sub\<close>, \<open>num_mul\<close> are \<^verbatim>\<open>-\<close> and \<^verbatim>\<open>*\<close>;
  \<^item> \<open>num_lt\<close>, \<open>num_le\<close>, \<open>num_ge\<close> are \<^verbatim>\<open><\<close>, \<^verbatim>\<open><=\<close> and \<^verbatim>\<open>>=\<close>;
  \<^item> \<open>num_toString\<close> is the rendering of a number inside a template literal;
  \<^item> \<open>tx_value amount price\<close> is the string
    \<^verbatim>\<open>new BigNumber(amount.toString()).times(new BigNumber(price)).times(10 ** 18).toFixed()\<close>
    computed by the library bignumber.js.
\<close>

record 'n num_ops =
  num_zero :: 'n
  num_sub :: "'n \<Rightarrow> 'n \<Rightarrow> 'n"
  num_mul :: "'n \<Rightarrow> 'n \<Rightarrow> 'n"
  num_lt :: "'n \<Rightarrow> 'n \<Rightarrow> bool"
  num_le :: "'n \<Rightarrow> 'n \<Rightarrow> bool"
  num_ge :: "'n \<Rightarrow> 'n \<Rightarrow> bool"
  num_toString :: "'n \<Rightarrow> string"
  tx_value :: "'n \<Rightarrow> 'n \<Rightarrow> string"

text \<open>\<^verbatim>\<open>type IProviders = 'MetaMask' | 'WalletConnect'\<close>\<close>

datatype IProviders = MetaMask | WalletConnect

text \<open>
  The account object (\<^verbatim>\<open>account: any\<close>): what \<^verbatim>\<open>getAccount\<close> resolves to, the data of an
  \<^verbatim>\<open>accountsChanged\<close> event, or the empty object \<^verbatim>\<open>{}\<close>. A field that is \<^verbatim>\<open>undefined\<close>
  is \<open>None\<close>. The hook starts with no account at all (\<^verbatim>\<open>useState<any>()\<close>), which is
  \<open>None\<close> at the level of the state.
\<close>

record account_info =
  acc_name :: "string option"
  address :: "string option"
  acc_type :: "string option"

definition empty_object :: account_info where
  "empty_object = \<lparr>acc_name = None, address = None, acc_type = None\<rparr>"

text \<open>The handle returned by \<^verbatim>\<open>eventSubscribe().subscribe(...)\<close>.\<close>

type_synonym subscription = nat

subsection \<open>State\<close>

text \<open>
  The four \<^verbatim>\<open>useState\<close> cells, and the \<^verbatim>\<open>providerType\<close> key of \<^verbatim>\<open>localStorage\<close>.
\<close>

record 'n world =
  account :: "account_info option"
  currentSubsriber :: "subscription option"
  pricePerToken :: 'n
  isMinting :: bool
  providerType :: "string option"

subsection \<open>Events\<close>

datatype severity = Sev_error | Sev_success | Sev_info

text \<open>The first argument of \<^verbatim>\<open>notify\<close>: a string or one of the components.\<close>

datatype 'n content =
    Text string
  | OfferToBuy 'n 'n
  | TxHash string
  | MintSuccess_multiply
  | MintSuccess_single "string option"

text \<open>The fourth argument of \<^verbatim>\<open>notify\<close>; the only one in the file is \<^verbatim>\<open>() => mint(tokensLeft)\<close>.\<close>

datatype 'n callback = RetryMint 'n

datatype 'n event =
    Notify "'n content" "severity option" "nat option" "'n callback option"
  | ConsoleError "int option"
  | ConsoleLog js_error
  | ResetConnect
  | InitWalletConnect IProviders
  | ResetWeb3
  | GetAccount
  | EventSubscribe
  | Unsubscribe subscription
  | GetContract
  | CallPaused
  | CallAllowedToExist
  | CallTotalSupply
  | GetMaticBalance string
  | SendBuy 'n string string
  | SetAccount account_info
  | SetCurrentSubscription subscription
  | SetIsMinting bool
  | StorageSetItem string
  | StorageRemoveItem

text \<open>A run in progress: the state so far and the events so far.\<close>

type_synonym 'n run = "'n world \<times> 'n event list"

definition emit :: "'n event \<Rightarrow> 'n run \<Rightarrow> 'n run" where
  "emit e r = (fst r, snd r @ [e])"

definition notify ::
  "'n content \<Rightarrow> severity option \<Rightarrow> nat option \<Rightarrow> 'n callback option \<Rightarrow> 'n run \<Rightarrow> 'n run" where
  "notify c s d cb r = emit (Notify c s d cb) r"

definition setAccount :: "account_info \<Rightarrow> 'n run \<Rightarrow> 'n run" where
  "setAccount a r = emit (SetAccount a) ((fst r)\<lparr>account := Some a\<rparr>, snd r)"

definition setCurrentSubscription :: "subscription \<Rightarrow> 'n run \<Rightarrow> 'n run" where
  "setCurrentSubscription s r =
     emit (SetCurrentSubscription s) ((fst r)\<lparr>currentSubsriber := Some s\<rparr>, snd r)"

definition setIsMinting :: "bool \<Rightarrow> 'n run \<Rightarrow> 'n run" where
  "setIsMinting b r = emit (SetIsMinting b) ((fst r)\<lparr>isMinting := b\<rparr>, snd r)"

definition storage_setItem :: "string \<Rightarrow> 'n run \<Rightarrow> 'n run" where
  "storage_setItem v r = emit (StorageSetItem v) ((fst r)\<lparr>providerType := Some v\<rparr>, snd r)"

definition storage_removeItem :: "'n run \<Rightarrow> 'n run" where
  "storage_removeItem r = emit StorageRemoveItem ((fst r)\<lparr>providerType := None\<rparr>, snd r)"

subsection \<open>\<^verbatim>\<open>subscriberError\<close> and \<^verbatim>\<open>disconnect\<close>\<close>

text \<open>
  \<^verbatim>\<open>err.code === 4\<close>: the error is modelled by its code, \<open>None\<close> when it has none or one
  that is not a number. \<open>chainName\<close> is \<^verbatim>\<open>polygonProvider.network.chainName\<close>, a constant
  of the configuration module, which is not part of the file.
\<close>

definition subscriberError :: "string \<Rightarrow> int option \<Rightarrow> 'n world \<Rightarrow> 'n run" where
  "subscriberError chainName err_code w =
     (let r = emit (ConsoleError err_code) (w, [])
      in if err_code = Some 4
         then setAccount empty_object
                (notify (Text (''You changed to wrong network. Please choose '' @ chainName))
                   (Some Sev_error) None None
                   (emit ResetConnect r))
         else r)"

text \<open>\<^verbatim>\<open>currentSubsriber?.unsubscribe()\<close> does nothing when there is no subscription.\<close>

definition disconnect :: "'n world \<Rightarrow> 'n run" where
  "disconnect w =
     (let r1 = setAccount empty_object (w, []);
          r2 = storage_removeItem r1;
          r3 = (case currentSubsriber w of None \<Rightarrow> r2 | Some s \<Rightarrow> emit (Unsubscribe s) r2)
      in emit ResetConnect r3)"

subsection \<open>\<^verbatim>\<open>connect\<close>\<close>

text \<open>
  \<open>window_ethereum\<close> is the truthiness of \<^verbatim>\<open>window.ethereum\<close>; \<open>initWalletConnect_res\<close> the
  truthiness of what \<^verbatim>\<open>initWalletConnect\<close> resolves to; \<open>new_subscription\<close> the handle
  \<^verbatim>\<open>subscribe\<close> returns.
\<close>

record connect_env =
  window_ethereum :: bool
  initWalletConnect_res :: "bool awaited"
  getAccount_res :: "account_info awaited"
  new_subscription :: subscription

text \<open>\<^verbatim>\<open>s.slice(0, 5)\<close> and \<^verbatim>\<open>s.slice(-5)\<close>.\<close>

definition slice_0_5 :: "string \<Rightarrow> string" where
  "slice_0_5 s = take 5 s"

definition slice_m5 :: "string \<Rightarrow> string" where
  "slice_m5 s = drop (length s - 5) s"

text \<open>
  The body of the \<^verbatim>\<open>try\<close> block once \<^verbatim>\<open>getAccount\<close> has resolved. Reading
  \<^verbatim>\<open>accountInfo.address.slice\<close> throws a \<^verbatim>\<open>TypeError\<close> when the address is undefined; the
  \<^verbatim>\<open>catch\<close> logs it. \<^verbatim>\<open>setItem\<close> stores the string \<^verbatim>\<open>undefined\<close> for an undefined type.
\<close>

definition connect_account :: "connect_env \<Rightarrow> account_info \<Rightarrow> 'n run \<Rightarrow> 'n run" where
  "connect_account env accountInfo r =
     (case address accountInfo of
        None \<Rightarrow> emit (ConsoleLog (JsError ''TypeError'')) r
      | Some a \<Rightarrow>
          (let r1 = notify (Text (''Wallet connected: '' @ slice_0_5 a @ ''...'' @ slice_m5 a))
                      (Some Sev_success) None None r;
               r2 = (if a \<noteq> []
                     then storage_setItem
                            (case acc_type accountInfo of None \<Rightarrow> ''undefined'' | Some t \<Rightarrow> t)
                            (setAccount accountInfo r1)
                     else r1);
               r3 = emit EventSubscribe r2
           in setCurrentSubscription (new_subscription env) r3))"

definition connect :: "connect_env \<Rightarrow> IProviders \<Rightarrow> 'n world \<Rightarrow> 'n run \<times> completion" where
  "connect env provider w =
     (let r0 = (if provider = MetaMask \<and> \<not> window_ethereum env
                then notify (Text ''Please install MetaMask!'') (Some Sev_error) None None (w, [])
                else (w, []));
          r1 = emit (InitWalletConnect provider) r0
      in case initWalletConnect_res env of
           Inl e \<Rightarrow> (r1, Rejected e)
         | Inr connected \<Rightarrow>
             if connected
             then (let r2 = emit GetAccount (emit ResetWeb3 r1)
                   in case getAccount_res env of
                        Inl e \<Rightarrow> (emit (ConsoleLog e) r2, Resolved)
                      | Inr accountInfo \<Rightarrow> (connect_account env accountInfo r2, Resolved))
             else (r1, Resolved))"

subsection \<open>\<^verbatim>\<open>mint\<close>\<close>

text \<open>
  What the transaction's promise-event does: it may emit \<^verbatim>\<open>transactionHash\<close>, and then it
  either rejects or resolves with a receipt, of which the callback reads
  \<^verbatim>\<open>result.events.Transfer\<close>: an array, one event (with its \<^verbatim>\<open>returnValues.tokenId\<close>), or
  nothing, in which case reading \<^verbatim>\<open>returnValues\<close> throws.
\<close>

datatype transfer = Transfer_array | Transfer_one "string option" | Transfer_undefined

record send_outcome =
  transactionHash :: "string option"
  send_res :: "transfer awaited"

record 'n mint_env =
  paused_res :: "bool awaited"
  allowedToExist_res :: "'n awaited"
  totalSupply_res :: "'n awaited"
  getMaticBalance_res :: "'n awaited"
  buy_res :: send_outcome

text \<open>
  \<^verbatim>\<open>!account?.address\<close>: the address the check lets through, if any. An absent account,
  an undefined address and the empty string all fail it.
\<close>

definition connected_address :: "account_info option \<Rightarrow> string option" where
  "connected_address acct =
     (case acct of
        None \<Rightarrow> None
      | Some a \<Rightarrow> (case address a of
                    None \<Rightarrow> None
                  | Some s \<Rightarrow> if s = [] then None else Some s))"

text \<open>Lines 132 to 159: the \<^verbatim>\<open>try\<close> block around the transaction.\<close>

definition mint_buy ::
  "'n num_ops \<Rightarrow> 'n mint_env \<Rightarrow> string \<Rightarrow> 'n \<Rightarrow> 'n \<Rightarrow> 'n run \<Rightarrow> 'n run \<times> completion" where
  "mint_buy ops env addr price amountOfTokensToMint r =
     (let r1 = emit (SendBuy amountOfTokensToMint addr (tx_value ops amountOfTokensToMint price)) r;
          r2 = (case transactionHash (buy_res env) of
                  None \<Rightarrow> r1
                | Some h \<Rightarrow> notify (TxHash h) (Some Sev_info) (Some 10000) None r1)
      in case send_res (buy_res env) of
           Inl e \<Rightarrow> (setIsMinting False r2, Resolved)
         | Inr Transfer_array \<Rightarrow>
             (setIsMinting False
                (notify MintSuccess_multiply (Some Sev_success) (Some 10000) None r2), Resolved)
         | Inr (Transfer_one tokenId) \<Rightarrow>
             (setIsMinting False
                (notify (MintSuccess_single tokenId) (Some Sev_success) (Some 10000) None r2),
              Resolved)
         | Inr Transfer_undefined \<Rightarrow> (setIsMinting False r2, Resolved))"

text \<open>Lines 124 to 130: the balance check.\<close>

definition mint_funds ::
  "'n num_ops \<Rightarrow> 'n mint_env \<Rightarrow> string \<Rightarrow> 'n \<Rightarrow> 'n \<Rightarrow> 'n run \<Rightarrow> 'n run \<times> completion" where
  "mint_funds ops env addr price amountOfTokensToMint r =
     (let r1 = emit (GetMaticBalance addr) r
      in case getMaticBalance_res env of
           Inl e \<Rightarrow> (r1, Rejected e)
         | Inr userBalance \<Rightarrow>
             if num_ge ops (num_mul ops price amountOfTokensToMint) userBalance
             then (setIsMinting False
                     (notify (Text (''You can't mint '' @ num_toString ops amountOfTokensToMint
                                    @ '' tokens, as you don't have enough money''))
                        None None None r1),
                   Resolved)
             else mint_buy ops env addr price amountOfTokensToMint r1)"

text \<open>Lines 106 to 123: the supply check.\<close>

definition mint_supply ::
  "'n num_ops \<Rightarrow> 'n mint_env \<Rightarrow> string \<Rightarrow> 'n \<Rightarrow> 'n \<Rightarrow> 'n run \<Rightarrow> 'n run \<times> completion" where
  "mint_supply ops env addr price amountOfTokensToMint r =
     (let r1 = emit CallAllowedToExist r
      in case allowedToExist_res env of
           Inl e \<Rightarrow> (r1, Rejected e)
         | Inr allowedToExist \<Rightarrow>
             (let r2 = emit CallTotalSupply r1
              in case totalSupply_res env of
                   Inl e \<Rightarrow> (r2, Rejected e)
                 | Inr totalSupply \<Rightarrow>
                     (let tokensLeft = num_sub ops allowedToExist totalSupply
                      in if num_lt ops tokensLeft amountOfTokensToMint
                         then (setIsMinting False
                                 (if num_le ops tokensLeft (num_zero ops)
                                  then notify (Text ''All NFTs have been sold!'') None None None r2
                                  else notify (OfferToBuy tokensLeft amountOfTokensToMint)
                                         (Some Sev_info) (Some 15000)
                                         (Some (RetryMint tokensLeft)) r2),
                               Resolved)
                         else mint_funds ops env addr price amountOfTokensToMint r2)))"

text \<open>
  \<^verbatim>\<open>mint\<close> is \<^verbatim>\<open>useCallback(..., [pricePerToken, account])\<close>: its body reads the account and
  the price of the render that created it, here \<open>acct\<close> and \<open>price\<close>, while the setters
  act on the state as it is when the call runs, here \<open>w\<close>. The component hands out the
  callback of the latest render, for which \<open>acct = account w\<close> and
  \<open>price = pricePerToken w\<close>; the retry callback of a notification keeps the callback of
  the render it was made in.
\<close>

definition mint ::
  "'n num_ops \<Rightarrow> 'n mint_env \<Rightarrow> account_info option \<Rightarrow> 'n \<Rightarrow> 'n \<Rightarrow> 'n world
     \<Rightarrow> 'n run \<times> completion" where
  "mint ops env acct price amountOfTokensToMint w =
     (case connected_address acct of
        None \<Rightarrow> (notify (Text ''Please connect your wallet!'') None None None (w, []), Resolved)
      | Some addr \<Rightarrow>
          (let r1 = emit GetContract (setIsMinting True (w, []));
               r2 = emit CallPaused r1
           in case paused_res env of
                Inl e \<Rightarrow> (r2, Rejected e)
              | Inr isMintingPaused \<Rightarrow>
                  if isMintingPaused
                  then (setIsMinting False
                          (notify (Text ''Minting is paused now!'') None None None r2),
                        Resolved)
                  else mint_supply ops env addr price amountOfTokensToMint r2))"

text \<open>Running the fourth argument of a notification made by the callback of \<open>acct\<close>, \<open>price\<close>.\<close>

definition invoke_callback ::
  "'n num_ops \<Rightarrow> 'n mint_env \<Rightarrow> account_info option \<Rightarrow> 'n \<Rightarrow> 'n callback \<Rightarrow> 'n world
     \<Rightarrow> 'n run \<times> completion" where
  "invoke_callback ops env acct price cb w =
     (case cb of RetryMint n \<Rightarrow> mint ops env acct price n w)"

text \<open>The parts of a finished call.\<close>

definition final_state :: "'n run \<times> completion \<Rightarrow> 'n world" where
  "final_state res = fst (fst res)"

definition events :: "'n run \<times> completion \<Rightarrow> 'n event list" where
  "events res = snd (fst res)"

definition outcome :: "'n run \<times> completion \<Rightarrow> completion" where
  "outcome res = snd res"

text \<open>Calls of a method of the NFT contract, and among them the buy transaction.\<close>

fun is_contract_call :: "'n event \<Rightarrow> bool" where
  "is_contract_call CallPaused = True"
| "is_contract_call CallAllowedToExist = True"
| "is_contract_call CallTotalSupply = True"
| "is_contract_call (SendBuy n a v) = True"
| "is_contract_call e = False"

fun is_buy :: "'n event \<Rightarrow> bool" where
  "is_buy (SendBuy n a v) = True"
| "is_buy e = False"

fun is_state_change :: "'n event \<Rightarrow> bool" where
  "is_state_change (SetAccount a) = True"
| "is_state_change (SetCurrentSubscription s) = True"
| "is_state_change (SetIsMinting b) = True"
| "is_state_change (StorageSetItem v) = True"
| "is_state_change StorageRemoveItem = True"
| "is_state_change e = False"

subsection \<open>A concrete interpretation, for examples\<close>

text \<open>
  On integers of small magnitude IEEE arithmetic is exact, and the product of integers
  that bignumber.js renders is the decimal numeral of the product. The examples below
  stay within that range, with a price that is a whole number of tokens.
\<close>

fun digits_of_nat :: "nat \<Rightarrow> string" where
  "digits_of_nat n =
     (if n < 10 then [''0123456789'' ! n]
      else digits_of_nat (n div 10) @ [''0123456789'' ! (n mod 10)])"

declare digits_of_nat.simps [simp del]

definition string_of_int :: "int \<Rightarrow> string" where
  "string_of_int i =
     (if i < 0 then CHR ''-'' # digits_of_nat (nat (- i)) else digits_of_nat (nat i))"

definition int_ops :: "int num_ops" where
  "int_ops =
     \<lparr>num_zero = 0, num_sub = (-), num_mul = (*), num_lt = (<), num_le = (\<le>),
      num_ge = (\<ge>), num_toString = string_of_int,
      tx_value = (\<lambda>a p. string_of_int (a * p * 10 ^ 18))\<rparr>"

definition example_account :: account_info where
  "example_account =
     \<lparr>acc_name = None, address = Some ''0x52908400098527886E0F7030069857D2E4169EE7'',
      acc_type = Some ''MetaMask''\<rparr>"

definition example_world :: "int world" where
  "example_world =
     \<lparr>account = Some example_account, currentSubsriber = Some 0, pricePerToken = 2,
      isMinting = False, providerType = Some ''MetaMask''\<rparr>"

definition example_env :: "int mint_env" where
  "example_env =
     \<lparr>paused_res = Inr False, allowedToExist_res = Inr 100, totalSupply_res = Inr 40,
      getMaticBalance_res = Inr 50,
      buy_res = \<lparr>transactionHash = Some ''0xabc'',
                 send_res = Inr (Transfer_one (Some ''41''))\<rparr>\<rparr>"

definition example_connect_env :: connect_env where
  "example_connect_env =
     \<lparr>window_ethereum = False, initWalletConnect_res = Inr True,
      getAccount_res = Inr example_account, new_subscription = 1\<rparr>"

section \<open>Properties\<close>

lemmas run_defs = emit_def notify_def setAccount_def setCurrentSubscription_def
  setIsMinting_def storage_setItem_def storage_removeItem_def final_state_def events_def
  outcome_def

lemmas mint_defs = mint_def mint_supply_def mint_funds_def mint_buy_def

lemmas example_defs = example_account_def example_world_def example_env_def int_ops_def
  connected_address_def

lemma example_connected:
  "connected_address (account example_world) =
     Some ''0x52908400098527886E0F7030069857D2E4169EE7''"
  by (simp add: example_defs)

subsection \<open>The account check\<close>

lemma connected_address_None_iff:
  "connected_address acct = None \<longleftrightarrow>
     acct = None \<or> (\<exists>a. acct = Some a \<and> (address a = None \<or> address a = Some []))"
  by (auto simp: connected_address_def split: option.splits)

lemma connected_address_Some_iff:
  "connected_address acct = Some s \<longleftrightarrow>
     s \<noteq> [] \<and> (\<exists>a. acct = Some a \<and> address a = Some s)"
  by (auto simp: connected_address_def split: option.splits)

subsection \<open>How a call of \<^verbatim>\<open>mint\<close> can end\<close>

text \<open>A call submits the buy transaction at most once, for the amount it was asked for.\<close>

lemma mint_buys_at_most_once:
  assumes "connected_address acct = Some addr"
  shows "filter is_buy (events (mint ops env acct price n w)) = [] \<or>
         filter is_buy (events (mint ops env acct price n w)) =
           [SendBuy n addr (tx_value ops n price)]"
  using assms
  by (simp add: mint_defs run_defs Let_def split: sum.splits transfer.splits option.splits)

text \<open>
  The promise of \<^verbatim>\<open>mint\<close> rejects exactly when one of the four queries before the
  \<^verbatim>\<open>try\<close> block rejects, and then the flag is left set. A call that got past the account
  check and whose promise resolves has cleared the flag.
\<close>

lemma mint_rejected_flag_stuck:
  assumes "outcome (mint ops env acct price n w) = Rejected e"
  shows "isMinting (final_state (mint ops env acct price n w)) = True"
  using assms
  by (simp add: mint_defs run_defs Let_def
      split: sum.splits transfer.splits option.splits if_splits)

lemma mint_resolved_flag_cleared:
  assumes "connected_address acct = Some addr"
    and "outcome (mint ops env acct price n w) = Resolved"
  shows "isMinting (final_state (mint ops env acct price n w)) = False"
  using assms
  by (simp add: mint_defs run_defs Let_def
      split: sum.splits transfer.splits option.splits if_splits)

text \<open>
  The \<^verbatim>\<open>catch\<close> of the \<^verbatim>\<open>try\<close> block: a rejected transaction clears the flag, the promise
  resolves, and nothing is notified after the transaction hash.
\<close>

lemma mint_buy_rejection_caught:
  assumes "send_res (buy_res env) = Inl e"
  shows "outcome (mint_buy ops env addr price n r) = Resolved \<and>
         isMinting (final_state (mint_buy ops env addr price n r)) = False \<and>
         events (mint_buy ops env addr price n r) =
           snd r @ SendBuy n addr (tx_value ops n price) #
             (case transactionHash (buy_res env) of
                None \<Rightarrow> []
              | Some h \<Rightarrow> [Notify (TxHash h) (Some Sev_info) (Some 10000) None]) @
             [SetIsMinting False]"
  using assms by (simp add: mint_buy_def run_defs Let_def split: option.splits)

subsection \<open>Claims\<close>

text \<open>
  C1. The claim: once past the account check, an exception of any awaited call of the
  workflow is caught, \<open>isMinting\<close> is reset and nothing is notified. That holds for the
  buy transaction (\<open>mint_buy_rejection_caught\<close>), which alone is inside the \<^verbatim>\<open>try\<close>
  block. It fails for the queries before it. What the code does when the \<^verbatim>\<open>paused()\<close>
  query rejects: the promise of \<^verbatim>\<open>mint\<close> rejects with the same reason, and the flag set
  at line 94 stays set.
\<close>

theorem mint_paused_query_rejection_escapes:
  assumes "connected_address acct = Some addr"
    and "paused_res env = Inl e"
  shows "mint ops env acct price n w =
           ((w\<lparr>isMinting := True\<rparr>, [SetIsMinting True, GetContract, CallPaused]),
            Rejected e)"
  using assms by (simp add: mint_def run_defs)

theorem mint_paused_query_rejection_escapes_witness:
  "connected_address (account example_world) =
      Some ''0x52908400098527886E0F7030069857D2E4169EE7'' \<and>
   paused_res (example_env\<lparr>paused_res := Inl (JsError ''Invalid JSON RPC response'')\<rparr>) =
      Inl (JsError ''Invalid JSON RPC response'') \<and>
   outcome (mint int_ops
              (example_env\<lparr>paused_res := Inl (JsError ''Invalid JSON RPC response'')\<rparr>)
              (account example_world) (pricePerToken example_world) 3 example_world) =
      Rejected (JsError ''Invalid JSON RPC response'') \<and>
   isMinting (final_state (mint int_ops
              (example_env\<lparr>paused_res := Inl (JsError ''Invalid JSON RPC response'')\<rparr>)
              (account example_world) (pricePerToken example_world) 3 example_world)) = True"
proof -
  let ?env = "example_env\<lparr>paused_res := Inl (JsError ''Invalid JSON RPC response'')\<rparr>"
  have h: "paused_res ?env = Inl (JsError ''Invalid JSON RPC response'')"
    by simp
  from mint_paused_query_rejection_escapes
         [OF example_connected h, of int_ops "pricePerToken example_world" 3 example_world]
       example_connected h
  show ?thesis by (simp add: run_defs)
qed

text \<open>
  C3. When the contract is not paused, both supply queries answer, the amount asked for
  exceeds \<open>tokensLeft = allowedToExist - totalSupply\<close> and \<open>tokensLeft <= 0\<close> is false, the
  call ends after the offer: no transaction is sent, the flag is cleared, and the one
  notification is the offer, whose callback is \<^verbatim>\<open>() => mint(tokensLeft)\<close>. Running that
  callback is a call of \<^verbatim>\<open>mint\<close> for \<open>tokensLeft\<close>, and whatever the chain answers then, a
  transaction it sends buys exactly \<open>tokensLeft\<close>. (For numbers, \<open>tokensLeft <= 0\<close> being
  false while \<open>tokensLeft < amount\<close> is true means that \<open>tokensLeft\<close> is positive.)
\<close>

theorem mint_offers_tokens_left:
  assumes "connected_address acct = Some addr"
    and "paused_res env = Inr False"
    and "allowedToExist_res env = Inr allowedToExist"
    and "totalSupply_res env = Inr totalSupply"
    and "num_lt ops (num_sub ops allowedToExist totalSupply) n"
    and "\<not> num_le ops (num_sub ops allowedToExist totalSupply) (num_zero ops)"
  shows "events (mint ops env acct price n w) =
           [SetIsMinting True, GetContract, CallPaused, CallAllowedToExist, CallTotalSupply,
            Notify (OfferToBuy (num_sub ops allowedToExist totalSupply) n) (Some Sev_info)
              (Some 15000) (Some (RetryMint (num_sub ops allowedToExist totalSupply))),
            SetIsMinting False] \<and>
         filter is_buy (events (mint ops env acct price n w)) = [] \<and>
         final_state (mint ops env acct price n w) = w\<lparr>isMinting := False\<rparr> \<and>
         outcome (mint ops env acct price n w) = Resolved \<and>
         invoke_callback ops env' acct price
             (RetryMint (num_sub ops allowedToExist totalSupply)) w' =
           mint ops env' acct price (num_sub ops allowedToExist totalSupply) w' \<and>
         set (filter is_buy (events (invoke_callback ops env' acct price
                (RetryMint (num_sub ops allowedToExist totalSupply)) w')))
           \<subseteq> {SendBuy (num_sub ops allowedToExist totalSupply) addr
                 (tx_value ops (num_sub ops allowedToExist totalSupply) price)}"
proof -
  let ?left = "num_sub ops allowedToExist totalSupply"
  have cb: "invoke_callback ops env' acct price (RetryMint ?left) w' =
              mint ops env' acct price ?left w'"
    by (simp add: invoke_callback_def)
  have sub: "set (filter is_buy (events (mint ops env' acct price ?left w')))
               \<subseteq> {SendBuy ?left addr (tx_value ops ?left price)}"
  proof -
    from mint_buys_at_most_once [OF assms(1), of ops env' price ?left w']
    consider (none) "filter is_buy (events (mint ops env' acct price ?left w')) = []"
      | (one) "filter is_buy (events (mint ops env' acct price ?left w')) =
                 [SendBuy ?left addr (tx_value ops ?left price)]"
      by blast
    then show ?thesis
    proof cases
      case none
      show ?thesis unfolding none by simp
    next
      case one
      show ?thesis unfolding one by simp
    qed
  qed
  have run: "events (mint ops env acct price n w) =
               [SetIsMinting True, GetContract, CallPaused, CallAllowedToExist,
                CallTotalSupply,
                Notify (OfferToBuy ?left n) (Some Sev_info) (Some 15000)
                  (Some (RetryMint ?left)),
                SetIsMinting False] \<and>
             final_state (mint ops env acct price n w) = w\<lparr>isMinting := False\<rparr> \<and>
             outcome (mint ops env acct price n w) = Resolved"
    using assms by (simp add: mint_def mint_supply_def run_defs Let_def)
  then have "filter is_buy (events (mint ops env acct price n w)) = []"
    by simp
  with run sub show ?thesis
    unfolding cb by simp
qed

text \<open>
  An instance: 42 tokens allowed, 40 minted, 5 asked for. The offer is for 2, and the
  callback, run against a chain that still has them, sends a transaction for 2.
\<close>

theorem mint_offers_tokens_left_witness:
  "connected_address (account example_world) =
      Some ''0x52908400098527886E0F7030069857D2E4169EE7'' \<and>
   num_lt int_ops (num_sub int_ops 42 40) 5 \<and>
   \<not> num_le int_ops (num_sub int_ops 42 40) (num_zero int_ops) \<and>
   events (mint int_ops (example_env\<lparr>allowedToExist_res := Inr 42\<rparr>)
            (account example_world) (pricePerToken example_world) 5 example_world) =
     [SetIsMinting True, GetContract, CallPaused, CallAllowedToExist, CallTotalSupply,
      Notify (OfferToBuy 2 5) (Some Sev_info) (Some 15000) (Some (RetryMint 2)),
      SetIsMinting False] \<and>
   filter is_buy (events (invoke_callback int_ops (example_env\<lparr>allowedToExist_res := Inr 42\<rparr>)
        (account example_world) (pricePerToken example_world) (RetryMint 2) example_world)) =
     [SendBuy 2 ''0x52908400098527886E0F7030069857D2E4169EE7'' ''4000000000000000000'']"
proof -
  let ?env = "example_env\<lparr>allowedToExist_res := Inr 42\<rparr>"
  have p: "paused_res ?env = Inr False" by (simp add: example_env_def)
  have x: "allowedToExist_res ?env = Inr 42" by simp
  have t: "totalSupply_res ?env = Inr 40" by (simp add: example_env_def)
  have lt: "num_lt int_ops (num_sub int_ops 42 40) 5" by (simp add: int_ops_def)
  have le: "\<not> num_le int_ops (num_sub int_ops 42 40) (num_zero int_ops)"
    by (simp add: int_ops_def)
  have s: "num_sub int_ops 42 40 = 2" by (simp add: int_ops_def)
  have v: "tx_value int_ops 2 (pricePerToken example_world) = ''4000000000000000000''"
    by (simp add: int_ops_def example_world_def string_of_int_def digits_of_nat.simps)
  have b: "filter is_buy (events (mint int_ops ?env (account example_world)
              (pricePerToken example_world) 2 example_world)) =
     [SendBuy 2 ''0x52908400098527886E0F7030069857D2E4169EE7'' ''4000000000000000000'']"
    using example_connected v
    by (simp add: mint_defs run_defs Let_def example_env_def int_ops_def example_world_def)
  from mint_offers_tokens_left
         [where env' = ?env and w' = example_world and w = example_world,
          OF example_connected p x t lt le]
       example_connected lt le b
  show ?thesis by (simp add: s)
qed

text \<open>
  C4. When the contract is not paused, both supply queries answer, the amount asked for
  exceeds \<open>tokensLeft = allowedToExist - totalSupply\<close> and \<open>tokensLeft <= 0\<close>, the call
  ends after the sold-out notification: that notification carries no callback, no
  transaction is sent, the flag is cleared.
\<close>

theorem mint_sold_out:
  assumes "connected_address acct = Some addr"
    and "paused_res env = Inr False"
    and "allowedToExist_res env = Inr allowedToExist"
    and "totalSupply_res env = Inr totalSupply"
    and "num_lt ops (num_sub ops allowedToExist totalSupply) n"
    and "num_le ops (num_sub ops allowedToExist totalSupply) (num_zero ops)"
  shows "events (mint ops env acct price n w) =
           [SetIsMinting True, GetContract, CallPaused, CallAllowedToExist, CallTotalSupply,
            Notify (Text ''All NFTs have been sold!'') None None None, SetIsMinting False] \<and>
         filter is_buy (events (mint ops env acct price n w)) = [] \<and>
         final_state (mint ops env acct price n w) = w\<lparr>isMinting := False\<rparr> \<and>
         outcome (mint ops env acct price n w) = Resolved"
  using assms by (simp add: mint_def mint_supply_def run_defs Let_def)

text \<open>An instance: 40 tokens allowed, 40 minted, 3 asked for.\<close>

theorem mint_sold_out_witness:
  "connected_address (account example_world) =
      Some ''0x52908400098527886E0F7030069857D2E4169EE7'' \<and>
   num_lt int_ops (num_sub int_ops 40 40) 3 \<and>
   num_le int_ops (num_sub int_ops 40 40) (num_zero int_ops) \<and>
   events (mint int_ops (example_env\<lparr>allowedToExist_res := Inr 40\<rparr>)
            (account example_world) (pricePerToken example_world) 3 example_world) =
     [SetIsMinting True, GetContract, CallPaused, CallAllowedToExist, CallTotalSupply,
      Notify (Text ''All NFTs have been sold!'') None None None, SetIsMinting False] \<and>
   filter is_buy (events (mint int_ops (example_env\<lparr>allowedToExist_res := Inr 40\<rparr>)
            (account example_world) (pricePerToken example_world) 3 example_world)) = []"
proof -
  let ?env = "example_env\<lparr>allowedToExist_res := Inr 40\<rparr>"
  have p: "paused_res ?env = Inr False" by (simp add: example_env_def)
  have x: "allowedToExist_res ?env = Inr 40" by simp
  have t: "totalSupply_res ?env = Inr 40" by (simp add: example_env_def)
  have lt: "num_lt int_ops (num_sub int_ops 40 40) 3" by (simp add: int_ops_def)
  have le: "num_le int_ops (num_sub int_ops 40 40) (num_zero int_ops)"
    by (simp add: int_ops_def)
  from mint_sold_out
         [OF example_connected p x t lt le, of "pricePerToken example_world" example_world]
       example_connected lt le
  show ?thesis by simp
qed

text \<open>
  C5. When the call has passed the supply check and the balance query answers, it ends
  with the insufficient-funds notification and without a transaction if and only if
  \<open>pricePerToken * amount >= userBalance\<close>. In that case the flag is cleared and the
  promise resolves; otherwise the transaction is sent. In particular a balance equal to
  the product (and comparable with itself, as every number but NaN is) does not suffice.
\<close>

theorem mint_insufficient_funds_iff:
  assumes "connected_address acct = Some addr"
    and "paused_res env = Inr False"
    and "allowedToExist_res env = Inr allowedToExist"
    and "totalSupply_res env = Inr totalSupply"
    and "\<not> num_lt ops (num_sub ops allowedToExist totalSupply) n"
    and "getMaticBalance_res env = Inr userBalance"
  shows "((Notify (Text (''You can't mint '' @ num_toString ops n
                          @ '' tokens, as you don't have enough money'')) None None None
             \<in> set (events (mint ops env acct price n w)) \<and>
           filter is_buy (events (mint ops env acct price n w)) = [])
          = num_ge ops (num_mul ops price n) userBalance) \<and>
         (if num_ge ops (num_mul ops price n) userBalance
          then events (mint ops env acct price n w) =
                 [SetIsMinting True, GetContract, CallPaused, CallAllowedToExist,
                  CallTotalSupply, GetMaticBalance addr,
                  Notify (Text (''You can't mint '' @ num_toString ops n
                                @ '' tokens, as you don't have enough money'')) None None None,
                  SetIsMinting False] \<and>
               final_state (mint ops env acct price n w) = w\<lparr>isMinting := False\<rparr> \<and>
               outcome (mint ops env acct price n w) = Resolved
          else filter is_buy (events (mint ops env acct price n w)) =
                 [SendBuy n addr (tx_value ops n price)]) \<and>
         (num_mul ops price n = userBalance \<and> num_ge ops userBalance userBalance \<longrightarrow>
            filter is_buy (events (mint ops env acct price n w)) = [])"
  using assms
  by (simp add: mint_defs run_defs Let_def split: sum.splits transfer.splits option.splits)

text \<open>An instance: a price of 2, 3 tokens asked for, a balance of exactly 6.\<close>

theorem mint_insufficient_funds_iff_witness:
  "connected_address (account example_world) =
      Some ''0x52908400098527886E0F7030069857D2E4169EE7'' \<and>
   \<not> num_lt int_ops (num_sub int_ops 100 40) 3 \<and>
   num_mul int_ops (pricePerToken example_world) 3 = 6 \<and>
   num_ge int_ops 6 6 \<and>
   events (mint int_ops (example_env\<lparr>getMaticBalance_res := Inr 6\<rparr>)
            (account example_world) (pricePerToken example_world) 3 example_world) =
     [SetIsMinting True, GetContract, CallPaused, CallAllowedToExist, CallTotalSupply,
      GetMaticBalance ''0x52908400098527886E0F7030069857D2E4169EE7'',
      Notify (Text ''You can't mint 3 tokens, as you don't have enough money'') None None None,
      SetIsMinting False] \<and>
   filter is_buy (events (mint int_ops (example_env\<lparr>getMaticBalance_res := Inr 6\<rparr>)
            (account example_world) (pricePerToken example_world) 3 example_world)) = []"
proof -
  let ?env = "example_env\<lparr>getMaticBalance_res := Inr 6\<rparr>"
  have p: "paused_res ?env = Inr False" by (simp add: example_env_def)
  have x: "allowedToExist_res ?env = Inr 100" by (simp add: example_env_def)
  have t: "totalSupply_res ?env = Inr 40" by (simp add: example_env_def)
  have lt: "\<not> num_lt int_ops (num_sub int_ops 100 40) 3" by (simp add: int_ops_def)
  have b: "getMaticBalance_res ?env = Inr 6" by simp
  have m: "num_mul int_ops (pricePerToken example_world) 3 = 6"
    by (simp add: int_ops_def example_world_def)
  have ge: "num_ge int_ops 6 6" by (simp add: int_ops_def)
  have s: "num_toString int_ops 3 = ''3''"
    by (simp add: int_ops_def string_of_int_def digits_of_nat.simps)
  from mint_insufficient_funds_iff
         [OF example_connected p x t lt b, of "pricePerToken example_world" example_world]
       example_connected lt m ge s
  show ?thesis by simp
qed

text \<open>
  C6. When the \<^verbatim>\<open>paused()\<close> query answers true, no transaction is sent. The query is
  made only past the account check, and then the call is: set the flag, get the contract,
  query \<^verbatim>\<open>paused()\<close>, notify, clear the flag, return. No other contract method is called.
\<close>

theorem mint_paused_aborts:
  assumes "paused_res env = Inr True"
  shows "filter is_buy (events (mint ops env acct price n w)) = [] \<and>
         (connected_address acct \<noteq> None \<longrightarrow>
            events (mint ops env acct price n w) =
              [SetIsMinting True, GetContract, CallPaused,
               Notify (Text ''Minting is paused now!'') None None None, SetIsMinting False] \<and>
            filter is_contract_call (events (mint ops env acct price n w)) = [CallPaused] \<and>
            final_state (mint ops env acct price n w) = w\<lparr>isMinting := False\<rparr> \<and>
            outcome (mint ops env acct price n w) = Resolved)"
  using assms by (auto simp: mint_def run_defs split: option.splits)

theorem mint_paused_aborts_witness:
  "paused_res (example_env\<lparr>paused_res := Inr True\<rparr>) = Inr True \<and>
   connected_address (account example_world) \<noteq> None \<and>
   events (mint int_ops (example_env\<lparr>paused_res := Inr True\<rparr>)
            (account example_world) (pricePerToken example_world) 3 example_world) =
     [SetIsMinting True, GetContract, CallPaused,
      Notify (Text ''Minting is paused now!'') None None None, SetIsMinting False] \<and>
   filter is_buy (events (mint int_ops (example_env\<lparr>paused_res := Inr True\<rparr>)
            (account example_world) (pricePerToken example_world) 3 example_world)) = []"
proof -
  let ?env = "example_env\<lparr>paused_res := Inr True\<rparr>"
  have h: "paused_res ?env = Inr True" by simp
  have c: "connected_address (account example_world) \<noteq> None"
    by (simp add: example_connected)
  from mint_paused_aborts
         [OF h, of int_ops "account example_world" "pricePerToken example_world" 3
            example_world]
       h c
  show ?thesis by simp
qed

text \<open>
  C7. When the account check fails (no account, no address, or an empty address; see
  \<open>connected_address_None_iff\<close>), the call notifies the prompt to connect and does
  nothing else: no method of the contract is called.
\<close>

theorem mint_without_account_prompts:
  assumes "connected_address acct = None"
  shows "events (mint ops env acct price n w) =
           [Notify (Text ''Please connect your wallet!'') None None None] \<and>
         filter is_contract_call (events (mint ops env acct price n w)) = [] \<and>
         outcome (mint ops env acct price n w) = Resolved"
  using assms by (simp add: mint_def run_defs)

text \<open>An instance: the account after a disconnect, the empty object.\<close>

theorem mint_without_account_prompts_witness:
  "connected_address (Some empty_object) = None \<and>
   events (mint int_ops example_env (Some empty_object) 2 3
             (example_world\<lparr>account := Some empty_object\<rparr>)) =
     [Notify (Text ''Please connect your wallet!'') None None None] \<and>
   filter is_contract_call
     (events (mint int_ops example_env (Some empty_object) 2 3
                (example_world\<lparr>account := Some empty_object\<rparr>))) = []"
proof -
  have h: "connected_address (Some empty_object) = None"
    by (simp add: connected_address_def empty_object_def)
  from mint_without_account_prompts
         [OF h, of int_ops example_env 2 3 "example_world\<lparr>account := Some empty_object\<rparr>"] h
  show ?thesis by simp
qed

text \<open>
  C8. The claim: on an error with the wrong-network code the handler notifies, naming the
  chain, and performs a disconnect equivalent in effect to \<^verbatim>\<open>disconnect\<close>. The handler
  does notify, reset the wallet connection and set the account to the empty object, as
  \<^verbatim>\<open>disconnect\<close> does. It does not remove the stored provider type and does not
  unsubscribe, which \<^verbatim>\<open>disconnect\<close> does: with a provider stored and a subscription
  held, the two leave different states behind.
\<close>

theorem subscriberError_differs_from_disconnect:
  "fst (subscriberError ''Polygon Mainnet'' (Some 4) example_world) \<noteq>
     fst (disconnect example_world) \<and>
   providerType (fst (subscriberError ''Polygon Mainnet'' (Some 4) example_world)) =
     Some ''MetaMask'' \<and>
   providerType (fst (disconnect example_world)) = None \<and>
   Unsubscribe 0 \<in> set (snd (disconnect example_world)) \<and>
   Unsubscribe 0 \<notin> set (snd (subscriberError ''Polygon Mainnet'' (Some 4) example_world))"
  by (simp add: subscriberError_def disconnect_def run_defs Let_def example_defs)

text \<open>
  C8, as amended: on an error with code 4 the handler logs it, resets the wallet
  connection, shows an error notification that names the chain, and sets the account to
  the empty object, which is the account \<^verbatim>\<open>disconnect\<close> leaves; the stored provider type
  and the subscription are left as they were.
\<close>

theorem subscriberError_wrong_network:
  "subscriberError chainName (Some 4) w =
     (w\<lparr>account := Some empty_object\<rparr>,
      [ConsoleError (Some 4), ResetConnect,
       Notify (Text (''You changed to wrong network. Please choose '' @ chainName))
         (Some Sev_error) None None,
       SetAccount empty_object]) \<and>
   account (fst (subscriberError chainName (Some 4) w)) = account (fst (disconnect w)) \<and>
   providerType (fst (subscriberError chainName (Some 4) w)) = providerType w \<and>
   currentSubsriber (fst (subscriberError chainName (Some 4) w)) = currentSubsriber w"
  by (simp add: subscriberError_def disconnect_def run_defs Let_def split: option.splits)

text \<open>
  C9. When the account check fails, the call returns the state it was given: the flag,
  the account, the price, the subscription and the stored provider type are untouched,
  and no setter has been called, \<^verbatim>\<open>setIsMinting(true)\<close> included.
\<close>

theorem mint_without_account_changes_nothing:
  assumes "connected_address acct = None"
  shows "final_state (mint ops env acct price n w) = w \<and>
         filter is_state_change (events (mint ops env acct price n w)) = [] \<and>
         SetIsMinting True \<notin> set (events (mint ops env acct price n w))"
  using assms by (simp add: mint_def run_defs)

text \<open>An instance: the state before any connection, with no account at all.\<close>

theorem mint_without_account_changes_nothing_witness:
  "connected_address None = None \<and>
   final_state (mint int_ops example_env None 2 3
                  (example_world\<lparr>account := None, currentSubsriber := None\<rparr>)) =
     example_world\<lparr>account := None, currentSubsriber := None\<rparr> \<and>
   SetIsMinting True \<notin>
     set (events (mint int_ops example_env None 2 3
                    (example_world\<lparr>account := None, currentSubsriber := None\<rparr>)))"
proof -
  have h: "connected_address None = None"
    by (simp add: connected_address_def)
  from mint_without_account_changes_nothing
         [OF h, of int_ops example_env 2 3
            "example_world\<lparr>account := None, currentSubsriber := None\<rparr>"] h
  show ?thesis by simp
qed

text \<open>
  C10. With provider \<^verbatim>\<open>'MetaMask'\<close> and no \<^verbatim>\<open>window.ethereum\<close>, \<^verbatim>\<open>connect\<close> shows the
  error notification and goes on: its next step is \<^verbatim>\<open>initWalletConnect('MetaMask')\<close>, and
  from there the call is the one it would be with \<^verbatim>\<open>window.ethereum\<close> present.
\<close>

theorem connect_without_metamask_proceeds:
  assumes "\<not> window_ethereum env"
  shows "take 2 (events (connect env MetaMask w)) =
           [Notify (Text ''Please install MetaMask!'') (Some Sev_error) None None,
            InitWalletConnect MetaMask] \<and>
         events (connect env MetaMask w) =
           Notify (Text ''Please install MetaMask!'') (Some Sev_error) None None #
             events (connect (env\<lparr>window_ethereum := True\<rparr>) MetaMask w) \<and>
         final_state (connect env MetaMask w) =
           final_state (connect (env\<lparr>window_ethereum := True\<rparr>) MetaMask w) \<and>
         outcome (connect env MetaMask w) =
           outcome (connect (env\<lparr>window_ethereum := True\<rparr>) MetaMask w)"
  using assms
  by (simp add: connect_def connect_account_def run_defs Let_def
      split: sum.splits option.splits)

text \<open>An instance: the wallet service connects all the same.\<close>

theorem connect_without_metamask_proceeds_witness:
  "\<not> window_ethereum example_connect_env \<and>
   events (connect example_connect_env MetaMask
             (example_world\<lparr>account := None, currentSubsriber := None,
                providerType := None\<rparr>)) =
     [Notify (Text ''Please install MetaMask!'') (Some Sev_error) None None,
      InitWalletConnect MetaMask, ResetWeb3, GetAccount,
      Notify (Text ''Wallet connected: 0x529...69EE7'') (Some Sev_success) None None,
      SetAccount example_account, StorageSetItem ''MetaMask'', EventSubscribe,
      SetCurrentSubscription 1]"
proof -
  let ?w = "example_world\<lparr>account := None, currentSubsriber := None, providerType := None\<rparr>"
  have h: "\<not> window_ethereum example_connect_env"
    by (simp add: example_connect_env_def)
  have e: "events (connect (example_connect_env\<lparr>window_ethereum := True\<rparr>) MetaMask ?w) =
     [InitWalletConnect MetaMask, ResetWeb3, GetAccount,
      Notify (Text ''Wallet connected: 0x529...69EE7'') (Some Sev_success) None None,
      SetAccount example_account, StorageSetItem ''MetaMask'', EventSubscribe,
      SetCurrentSubscription 1]"
    by (simp add: connect_def connect_account_def run_defs Let_def example_connect_env_def
        example_account_def slice_0_5_def slice_m5_def)
  from connect_without_metamask_proceeds [OF h, of ?w] h e
  show ?thesis by simp
qed

end
